theory Spec2Isabelle
  imports Main
begin

section \<open>JavaScript values, errors and promises\<close>

text \<open>
  The decoded values that cross the boundary between \<^verbatim>\<open>contractUtils.ts\<close> and the
  chain: booleans, integers (\<^verbatim>\<open>bigint\<close>, numbers) and strings (addresses, byte strings
  in hex, names).
\<close>

datatype val = VBool bool | VInt int | VStr string

text \<open>JavaScript truthiness, as used by \<^verbatim>\<open>||\<close> and \<^verbatim>\<open>if\<close>.\<close>

fun truthy :: "val \<Rightarrow> bool" where
  "truthy (VBool b) = b"
| "truthy (VInt n) = (n \<noteq> 0)"
| "truthy (VStr s) = (s \<noteq> [])"

text \<open>
  What can be thrown or be the reason of a rejection: an \<^verbatim>\<open>Error\<close> object with its
  message, or any other value, kept as the text \<^verbatim>\<open>String(error)\<close> gives for it.
\<close>

datatype error = Error string | NonError string

fun error_text :: "error \<Rightarrow> string" where
  "error_text (Error message) = message"
| "error_text (NonError rendering) = rendering"

text \<open>
  A promise either settles, after some time in milliseconds and in one of the two settled
  forms, or stays pending forever. The settled forms are also the entries that
  \<^verbatim>\<open>Promise.allSettled\<close> produces.
\<close>

datatype 'a settled = Fulfilled 'a | Rejected error

datatype 'a promise = Promise nat "'a settled" | Pending

fun promise_then :: "'a promise \<Rightarrow> ('a \<Rightarrow> 'b) \<Rightarrow> 'b promise" where
  "promise_then (Promise d (Fulfilled v)) f = Promise d (Fulfilled (f v))"
| "promise_then (Promise d (Rejected e)) f = Promise d (Rejected e)"
| "promise_then Pending f = Pending"

fun promise_catch :: "'a promise \<Rightarrow> (error \<Rightarrow> 'a) \<Rightarrow> 'a promise" where
  "promise_catch (Promise d (Fulfilled v)) h = Promise d (Fulfilled v)"
| "promise_catch (Promise d (Rejected e)) h = Promise d (Fulfilled (h e))"
| "promise_catch Pending h = Pending"

text \<open>
  \<^verbatim>\<open>new Promise((_, reject) => setTimeout(() => reject(e), ms))\<close> and
  \<^verbatim>\<open>Promise.race([p, q])\<close>: the promise that settles first decides, the earlier entry of
  the array on a tie; a pending promise never decides.
\<close>

definition reject_after :: "nat \<Rightarrow> error \<Rightarrow> 'a promise" where
  "reject_after ms e = Promise ms (Rejected e)"

fun race :: "'a promise \<Rightarrow> 'a promise \<Rightarrow> 'a promise" where
  "race (Promise d r) (Promise d' r') = (if d' < d then Promise d' r' else Promise d r)"
| "race Pending q = q"
| "race (Promise d r) Pending = Promise d r"

text \<open>
  \<^verbatim>\<open>Promise.allSettled(ps)\<close> is fulfilled with the settled forms of all entries once the
  last of them has settled, and stays pending when one of them does.
\<close>

fun settlements :: "'a promise list \<Rightarrow> (nat \<times> 'a settled list) option" where
  "settlements [] = Some (0, [])"
| "settlements (Pending # ps) = None"
| "settlements (Promise d r # ps) =
     (case settlements ps of
        None \<Rightarrow> None
      | Some (d', rs) \<Rightarrow> Some (max d d', r # rs))"

definition allSettled :: "'a promise list \<Rightarrow> 'a settled list promise" where
  "allSettled ps =
     (case settlements ps of
        None \<Rightarrow> Pending
      | Some (d, rs) \<Rightarrow> Promise d (Fulfilled rs))"

section \<open>The provider and the effects of a call\<close>

text \<open>
  The two kinds of request the functions send to the chain: \<^verbatim>\<open>provider.getCode(address)\<close>
  and a read-only contract call (target address, method name, arguments). A provider
  answers a request with a promise, and the answer may depend on every request it has
  received before: a provider is a function of the history and of the request.
\<close>

datatype request = GetCode string | Call string string "val list"

type_synonym provider = "request list \<Rightarrow> request \<Rightarrow> val promise"

text \<open>
  The world threaded through a run: the requests sent so far, in order, and the lines
  written with \<^verbatim>\<open>console.error\<close>.
\<close>

record world =
  trace :: "request list"
  console :: "(string \<times> error) list"

text \<open>
  A computation started in a world either never returns (\<open>None\<close>: it awaits a promise
  that stays pending), or throws (\<open>Inl\<close>) or returns (\<open>Inr\<close>) and leaves a new world.
  A thrown error propagates through \<open>io_bind\<close> until a \<open>try_catch\<close> handles it; a
  computation that never returns has no continuation and reaches no handler.
\<close>

type_synonym 'a io = "world \<Rightarrow> ((error + 'a) \<times> world) option"

definition io_return :: "'a \<Rightarrow> 'a io" where
  "io_return x = (\<lambda>w. Some (Inr x, w))"

definition io_throw :: "error \<Rightarrow> 'a io" where
  "io_throw e = (\<lambda>w. Some (Inl e, w))"

definition io_bind :: "'a io \<Rightarrow> ('a \<Rightarrow> 'b io) \<Rightarrow> 'b io" where
  "io_bind m f =
     (\<lambda>w. case m w of
            None \<Rightarrow> None
          | Some (Inl e, w') \<Rightarrow> Some (Inl e, w')
          | Some (Inr x, w') \<Rightarrow> f x w')"

definition try_catch :: "'a io \<Rightarrow> (error \<Rightarrow> 'a io) \<Rightarrow> 'a io" where
  "try_catch m h =
     (\<lambda>w. case m w of
            None \<Rightarrow> None
          | Some (Inl e, w') \<Rightarrow> h e w'
          | Some (Inr x, w') \<Rightarrow> Some (Inr x, w'))"

definition io_lift :: "error + 'a \<Rightarrow> 'a io" where
  "io_lift r = (case r of Inl e \<Rightarrow> io_throw e | Inr x \<Rightarrow> io_return x)"

fun await :: "'a promise \<Rightarrow> 'a io" where
  "await (Promise d (Fulfilled v)) = io_return v"
| "await (Promise d (Rejected e)) = io_throw e"
| "await Pending = (\<lambda>w. None)"

definition console_error :: "string \<Rightarrow> error \<Rightarrow> unit io" where
  "console_error label e = (\<lambda>w. Some (Inr (), w\<lparr>console := console w @ [(label, e)]\<rparr>))"

definition send :: "provider \<Rightarrow> request \<Rightarrow> val promise io" where
  "send provider r = (\<lambda>w. Some (Inr (provider (trace w) r), w\<lparr>trace := trace w @ [r]\<rparr>))"

definition getCode :: "provider \<Rightarrow> string \<Rightarrow> val promise io" where
  "getCode provider address = send provider (GetCode address)"

text \<open>
  A \<^verbatim>\<open>try\<close> block that may \<^verbatim>\<open>return\<close> from the enclosing function or fall through to
  the statement after it.
\<close>

datatype 'a flow = Return 'a | FallThrough

section \<open>Strings\<close>

text \<open>\<^verbatim>\<open>s.includes(sub)\<close>, \<^verbatim>\<open>s.split(c)\<close> for a one-character separator, and
  \<^verbatim>\<open>s.replace(pat, rep)\<close> for a string pattern (the first occurrence only).\<close>

fun str_includes :: "string \<Rightarrow> string \<Rightarrow> bool" where
  "str_includes [] sub = (sub = [])"
| "str_includes (c # cs) sub = (take (length sub) (c # cs) = sub \<or> str_includes cs sub)"

fun str_split :: "char \<Rightarrow> string \<Rightarrow> string list" where
  "str_split sep [] = [[]]"
| "str_split sep (c # cs) =
     (if c = sep then [] # str_split sep cs
      else (case str_split sep cs of
              [] \<Rightarrow> [[c]]
            | piece # pieces \<Rightarrow> (c # piece) # pieces))"

fun str_replace :: "string \<Rightarrow> string \<Rightarrow> string \<Rightarrow> string" where
  "str_replace pat rep [] = (if pat = [] then rep else [])"
| "str_replace pat rep (c # cs) =
     (if take (length pat) (c # cs) = pat then rep @ drop (length pat) (c # cs)
      else c # str_replace pat rep cs)"

text \<open>\<^verbatim>\<open>bytecode.includes(sub)\<close> on a value: a \<^verbatim>\<open>TypeError\<close> when the value is no string.\<close>

fun val_includes :: "val \<Rightarrow> string \<Rightarrow> error + bool" where
  "val_includes (VStr s) sub = Inr (str_includes s sub)"
| "val_includes v sub = Inl (Error ''bytecode.includes is not a function'')"

section \<open>The ethers library\<close>

text \<open>
  The library is not part of the repository. The model takes from it, as parameters,
  \<^verbatim>\<open>ethers.isAddress\<close> (a total predicate on strings) and the error, if any, that
  \<^verbatim>\<open>new ethers.Contract(target, abi, provider)\<close> throws when it cannot bind to the
  target. The interface of a contract object is the list of function fragments of its
  human-readable ABI, each entry of the form \<^verbatim>\<open>function name(types) ...\<close>;
  \<^verbatim>\<open>interface.getFunction(key)\<close> for a bare name returns the only fragment of that name,
  \<^verbatim>\<open>null\<close> when there is none, and throws when there are several.
\<close>

record ethers =
  isAddress :: "string \<Rightarrow> bool"
  constructorError :: "string \<Rightarrow> string list \<Rightarrow> provider \<Rightarrow> error option"

datatype fragment = FunctionFragment (fragment_name: string) (fragment_inputs: "string list")

definition parseFragment :: "string \<Rightarrow> error + fragment" where
  "parseFragment signature =
     (if take 9 signature = ''function '' \<and> CHR ''('' \<in> set signature \<and> CHR '')'' \<in> set signature
      then
        (let rest = drop 9 signature;
             args = takeWhile (\<lambda>c. c \<noteq> CHR '')'') (drop 1 (dropWhile (\<lambda>c. c \<noteq> CHR ''('') rest))
         in Inr (FunctionFragment (takeWhile (\<lambda>c. c \<noteq> CHR ''('') rest)
                   (if args = [] then [] else str_split (CHR '','') args)))
      else Inl (Error ''unsupported fragment''))"

fun Interface_from :: "string list \<Rightarrow> error + fragment list" where
  "Interface_from [] = Inr []"
| "Interface_from (signature # abi) =
     (case parseFragment signature of
        Inl e \<Rightarrow> Inl e
      | Inr f \<Rightarrow> (case Interface_from abi of Inl e \<Rightarrow> Inl e | Inr fs \<Rightarrow> Inr (f # fs)))"

definition getFunction :: "fragment list \<Rightarrow> string \<Rightarrow> error + fragment option" where
  "getFunction interface key =
     (case filter (\<lambda>f. fragment_name f = key) interface of
        [] \<Rightarrow> Inr None
      | [f] \<Rightarrow> Inr (Some f)
      | _ \<Rightarrow> Inl (Error ''ambiguous function description''))"

record contract =
  target :: string
  interface :: "fragment list"
  runner :: provider

definition new_Contract :: "ethers \<Rightarrow> string \<Rightarrow> string list \<Rightarrow> provider \<Rightarrow> error + contract" where
  "new_Contract lib address abi provider =
     (case Interface_from abi of
        Inl e \<Rightarrow> Inl e
      | Inr fs \<Rightarrow>
          (case constructorError lib address abi provider of
             Some e \<Rightarrow> Inl e
           | None \<Rightarrow> Inr \<lparr>target = address, interface = fs, runner = provider\<rparr>))"

text \<open>
  A call of a method of the contract object, \<^verbatim>\<open>contract.balanceOf(x)\<close>: the methods are
  asynchronous functions, so the call sends the request and hands back a promise; a
  failure of any kind, a throw inside the provider included, is a rejection of that
  promise. The same holds for \<^verbatim>\<open>provider.getCode\<close>: both of its call sites stand in the
  \<^verbatim>\<open>try\<close> block that awaits them, so a throw and a rejection meet the same handler.
\<close>

definition contract_call :: "contract \<Rightarrow> string \<Rightarrow> val list \<Rightarrow> val promise io" where
  "contract_call c method args = send (runner c) (Call (target c) method args)"

section \<open>validateNFTContract\<close>

record ValidationResult =
  valid :: bool
  reason :: "string option"

definition validate_abi :: "string list" where
  "validate_abi =
     [''function supportsInterface(bytes4) view returns (bool)'',
      ''function balanceOf(address) view returns (uint256)'',
      ''function ownerOf(uint256) view returns (address)'',
      ''function balanceOfBatch(address[],uint256[]) view returns (uint256[])'']"

text \<open>Lines 16 to 30: the bytecode query, raced against the ten-second timer.\<close>

definition validate_code_check :: "provider \<Rightarrow> string \<Rightarrow> ValidationResult flow io" where
  "validate_code_check provider contractAddress =
     try_catch
       (io_bind (getCode provider contractAddress) (\<lambda>p.
        io_bind (await (race p (reject_after 10000 (Error ''Timeout checking contract code'')))) (\<lambda>code.
          if code = VStr ''0x''
          then io_return (Return \<lparr>valid = False, reason = Some ''Contract not deployed at this address''\<rparr>)
          else io_return FallThrough)))
       (\<lambda>codeError.
        io_bind (console_error ''Error checking contract code:'' codeError) (\<lambda>_.
          io_return (Return \<lparr>valid = False,
            reason = Some ''Failed to verify contract deployment - network issues''\<rparr>)))"

text \<open>Lines 48 to 82: the body of the second inner \<^verbatim>\<open>try\<close>.\<close>

definition validate_heuristics :: "contract \<Rightarrow> provider \<Rightarrow> string \<Rightarrow> ValidationResult io" where
  "validate_heuristics c provider contractAddress =
     io_bind (contract_call c ''supportsInterface'' [VStr ''0x80ac58cd'']) (\<lambda>p721.
     io_bind (await (promise_catch p721 (\<lambda>_. VBool False))) (\<lambda>isERC721.
     io_bind (contract_call c ''supportsInterface'' [VStr ''0xd9b67a26'']) (\<lambda>p1155.
     io_bind (await (promise_catch p1155 (\<lambda>_. VBool False))) (\<lambda>isERC1155.
       if truthy isERC721 \<or> truthy isERC1155
       then io_return \<lparr>valid = True, reason = None\<rparr>
       else
     io_bind (contract_call c ''balanceOf'' [VStr ''0x0000000000000000000000000000000000000001'']) (\<lambda>pb.
     io_bind (await (promise_catch (promise_then pb (\<lambda>_. True)) (\<lambda>_. False))) (\<lambda>hasBalanceOf.
     io_bind (contract_call c ''ownerOf'' [VInt 1]) (\<lambda>po.
     io_bind (await (promise_catch (promise_then po (\<lambda>_. True)) (\<lambda>_. False))) (\<lambda>hasOwnerOf.
       if hasBalanceOf \<or> hasOwnerOf
       then io_return \<lparr>valid = True, reason = None\<rparr>
       else
     io_bind (getCode provider contractAddress) (\<lambda>pc.
     io_bind (await pc) (\<lambda>bytecode.
     io_bind (io_lift (val_includes bytecode ''Transfer('')) (\<lambda>hasTransfer.
       if hasTransfer
       then io_return \<lparr>valid = True, reason = Some ''Contract appears to implement transfer events''\<rparr>
       else
     io_bind (io_lift (val_includes bytecode ''5RANSFERE'')) (\<lambda>hasGarbled.
       if hasGarbled
       then io_return \<lparr>valid = True, reason = Some ''Contract appears to implement transfer events''\<rparr>
       else io_return \<lparr>valid = False,
              reason = Some ''Contract does not appear to be an ERC721 or ERC1155 NFT''\<rparr>))))))))))))"

definition validateNFTContract :: "ethers \<Rightarrow> provider \<Rightarrow> string \<Rightarrow> ValidationResult io" where
  "validateNFTContract lib provider contractAddress =
     try_catch
       (if contractAddress = [] \<or> \<not> isAddress lib contractAddress
        then io_return \<lparr>valid = False, reason = Some ''Invalid Ethereum address format''\<rparr>
        else
          io_bind (validate_code_check provider contractAddress) (\<lambda>checked.
            case checked of
              Return result \<Rightarrow> io_return result
            | FallThrough \<Rightarrow>
                io_bind (io_lift (new_Contract lib contractAddress validate_abi provider)) (\<lambda>c.
                  try_catch (validate_heuristics c provider contractAddress)
                    (\<lambda>error. io_return \<lparr>valid = True, reason = None\<rparr>))))
       (\<lambda>error.
        io_bind (console_error ''Error validating NFT contract:'' error) (\<lambda>_.
          io_return \<lparr>valid = False, reason = Some (''Validation error: '' @ error_text error)\<rparr>))"

section \<open>getNFTContractInfo\<close>

record ContractInfo =
  name :: "val option"
  symbol :: "val option"
  totalSupply :: "val option"

definition info_abi :: "string list" where
  "info_abi =
     [''function name() view returns (string)'',
      ''function symbol() view returns (string)'',
      ''function totalSupply() view returns (uint256)'']"

text \<open>\<^verbatim>\<open>r.status === 'fulfilled' ? r.value : undefined\<close>\<close>

fun value_or_undefined :: "'a settled \<Rightarrow> 'a option" where
  "value_or_undefined (Fulfilled v) = Some v"
| "value_or_undefined (Rejected e) = None"

definition getNFTContractInfo :: "ethers \<Rightarrow> provider \<Rightarrow> string \<Rightarrow> ContractInfo io" where
  "getNFTContractInfo lib provider contractAddress =
     try_catch
       (io_bind (io_lift (new_Contract lib contractAddress info_abi provider)) (\<lambda>c.
        io_bind (contract_call c ''name'' []) (\<lambda>pn.
        io_bind (contract_call c ''symbol'' []) (\<lambda>ps.
        io_bind (contract_call c ''totalSupply'' []) (\<lambda>pt.
        io_bind (await (allSettled [pn, ps, pt])) (\<lambda>results.
          case results of
            nameResult # symbolResult # supplyResult # _ \<Rightarrow>
              io_return \<lparr>name = value_or_undefined nameResult,
                         symbol = value_or_undefined symbolResult,
                         totalSupply = value_or_undefined supplyResult\<rparr>
          | _ \<Rightarrow> io_throw (Error ''Cannot read properties of undefined (reading 'status')'')))))))
       (\<lambda>error.
        io_bind (console_error ''Error getting NFT contract info:'' error) (\<lambda>_.
          io_return \<lparr>name = None, symbol = None, totalSupply = None\<rparr>))"

section \<open>detectMintFunction\<close>

definition mintFunctions :: "string list" where
  "mintFunctions =
     [''function mint(uint256)'',
      ''function mint(address,uint256)'',
      ''function publicMint(uint256)'',
      ''function publicMint(address,uint256)'',
      ''function mintPublic(uint256)'',
      ''function mintPublic(address,uint256)'']"

text \<open>
  One round of the loop, lines 151 to 168: \<open>Return func\<close> when the round returns from the
  function, \<open>FallThrough\<close> when the loop goes on with the next candidate.
\<close>

definition detect_candidate :: "ethers \<Rightarrow> provider \<Rightarrow> string \<Rightarrow> string \<Rightarrow> string flow io" where
  "detect_candidate lib provider contractAddress func =
     (case str_split (CHR ''('') func of
        [] \<Rightarrow> io_throw (Error ''Cannot read properties of undefined (reading 'replace')'')
      | first # _ \<Rightarrow>
          (let functionName = str_replace ''function '' [] first in
           io_bind (io_lift (new_Contract lib contractAddress [func] provider)) (\<lambda>c.
             try_catch
               (io_bind (io_lift (getFunction (interface c) functionName)) (\<lambda>funcFragment.
                  if funcFragment \<noteq> None then io_return (Return func) else io_return FallThrough))
               (\<lambda>_. io_return FallThrough))))"

fun detect_loop :: "ethers \<Rightarrow> provider \<Rightarrow> string \<Rightarrow> string list \<Rightarrow> string option io" where
  "detect_loop lib provider contractAddress [] = io_return None"
| "detect_loop lib provider contractAddress (func # funcs) =
     io_bind (detect_candidate lib provider contractAddress func) (\<lambda>round.
       case round of
         Return found \<Rightarrow> io_return (Some found)
       | FallThrough \<Rightarrow> detect_loop lib provider contractAddress funcs)"

definition detectMintFunction :: "ethers \<Rightarrow> provider \<Rightarrow> string \<Rightarrow> string option io" where
  "detectMintFunction lib provider contractAddress =
     try_catch (detect_loop lib provider contractAddress mintFunctions)
       (\<lambda>error.
        io_bind (console_error ''Error detecting mint function:'' error) (\<lambda>_. io_return None))"

section \<open>Vocabulary of the statements\<close>

text \<open>
  How a settled call reads in the source: \<^verbatim>\<open>await p.catch(() => false)\<close> followed by a
  truthiness test holds exactly when the call was fulfilled with a truthy value, and
  \<^verbatim>\<open>p.then(() => true).catch(() => false)\<close> exactly when it was fulfilled at all.
\<close>

fun answers_true :: "val settled \<Rightarrow> bool" where
  "answers_true (Fulfilled v) = truthy v"
| "answers_true (Rejected e) = False"

fun succeeded :: "'a settled \<Rightarrow> bool" where
  "succeeded (Fulfilled v) = True"
| "succeeded (Rejected e) = False"

text \<open>The four contract calls of \<^verbatim>\<open>validateNFTContract\<close>, as requests to an address.\<close>

abbreviation probe721 :: "string \<Rightarrow> request" where
  "probe721 a \<equiv> Call a ''supportsInterface'' [VStr ''0x80ac58cd'']"

abbreviation probe1155 :: "string \<Rightarrow> request" where
  "probe1155 a \<equiv> Call a ''supportsInterface'' [VStr ''0xd9b67a26'']"

abbreviation balanceOf_call :: "string \<Rightarrow> request" where
  "balanceOf_call a \<equiv> Call a ''balanceOf'' [VStr ''0x0000000000000000000000000000000000000001'']"

abbreviation ownerOf_call :: "string \<Rightarrow> request" where
  "ownerOf_call a \<equiv> Call a ''ownerOf'' [VInt 1]"

section \<open>Sample libraries, providers and worlds\<close>

text \<open>
  Concrete inputs at which the theorems below are instantiated. The sample library accepts
  as an address \<^verbatim>\<open>0x\<close> followed by forty hexadecimal digits; the second one, in addition,
  cannot bind a contract object to a target that is no such string.
\<close>

definition hex_address :: "string \<Rightarrow> bool" where
  "hex_address s =
     (length s = 42 \<and> take 2 s = ''0x'' \<and> list_all (\<lambda>c. c \<in> set ''0123456789abcdefABCDEF'') (drop 2 s))"

definition sample_ethers :: ethers where
  "sample_ethers = \<lparr>isAddress = hex_address, constructorError = (\<lambda>address abi provider. None)\<rparr>"

definition unresolving_ethers :: ethers where
  "unresolving_ethers =
     \<lparr>isAddress = hex_address,
      constructorError = (\<lambda>address abi provider.
        if hex_address address then None
        else Some (Error ''contract runner does not support name resolution''))\<rparr>"

definition sample_address :: string where
  "sample_address = ''0x00000000000000000000000000000000000000aa''"

definition fresh_world :: world where
  "fresh_world = \<lparr>trace = [], console = []\<rparr>"

text \<open>No contract at any address.\<close>

definition bare_provider :: provider where
  "bare_provider history r =
     (case r of
        GetCode address \<Rightarrow> Promise 120 (Fulfilled (VStr ''0x''))
      | Call address method args \<Rightarrow> Promise 80 (Rejected (Error ''call revert exception'')))"

text \<open>A contract that declares ERC721, has a name and a total supply, and no symbol.\<close>

definition erc721_provider :: provider where
  "erc721_provider history r =
     (case r of
        GetCode address \<Rightarrow> Promise 120 (Fulfilled (VStr ''0x6080604052''))
      | Call address method args \<Rightarrow>
          (if method = ''supportsInterface'' then Promise 80 (Fulfilled (VBool (args = [VStr ''0x80ac58cd''])))
           else if method = ''name'' then Promise 80 (Fulfilled (VStr ''Apes''))
           else if method = ''totalSupply'' then Promise 95 (Fulfilled (VInt 10000))
           else Promise 80 (Rejected (Error ''call revert exception''))))"

text \<open>A contract without \<^verbatim>\<open>supportsInterface\<close> and without any mint function, that answers
  \<^verbatim>\<open>balanceOf\<close>.\<close>

definition legacy_provider :: provider where
  "legacy_provider history r =
     (case r of
        GetCode address \<Rightarrow> Promise 120 (Fulfilled (VStr ''0x6080604052''))
      | Call address method args \<Rightarrow>
          (if method = ''balanceOf'' then Promise 80 (Fulfilled (VInt 0))
           else Promise 80 (Rejected (Error ''call revert exception''))))"

text \<open>A connection that is lost after the first request: the first bytecode query is
  answered, every later request is rejected.\<close>

definition flaky_provider :: provider where
  "flaky_provider history r =
     (case (history, r) of
        ([], GetCode address) \<Rightarrow> Promise 120 (Fulfilled (VStr ''0x6080604052''))
      | _ \<Rightarrow> Promise 300 (Rejected (Error ''network error'')))"

text \<open>A node that answers the first bytecode query and then never answers again: every
  later promise stays pending.\<close>

definition stalled_provider :: provider where
  "stalled_provider history r =
     (case (history, r) of
        ([], GetCode address) \<Rightarrow> Promise 120 (Fulfilled (VStr ''0x6080604052''))
      | _ \<Rightarrow> Pending)"

section \<open>Basic facts\<close>

lemmas io_defs = io_return_def io_throw_def io_bind_def try_catch_def io_lift_def
  console_error_def send_def getCode_def contract_call_def

lemma await_caught_probe:
  "await (promise_catch (Promise d r) (\<lambda>_. VBool False)) w =
     Some (Inr (case r of Fulfilled v \<Rightarrow> v | Rejected e \<Rightarrow> VBool False), w)"
  by (cases r) (simp_all add: io_return_def)

lemma await_fallback_call:
  "await (promise_catch (promise_then (Promise d r) (\<lambda>_. True)) (\<lambda>_. False)) w =
     Some (Inr (succeeded r), w)"
  by (cases r) (simp_all add: io_return_def)

lemma probe_truthy:
  "truthy (case r of Fulfilled v \<Rightarrow> v | Rejected e \<Rightarrow> VBool False) = answers_true r"
  by (cases r) simp_all



subsection \<open>The interfaces of the three ABIs\<close>

lemma validate_interface:
  "Interface_from validate_abi =
     Inr [FunctionFragment ''supportsInterface'' [''bytes4''],
          FunctionFragment ''balanceOf'' [''address''],
          FunctionFragment ''ownerOf'' [''uint256''],
          FunctionFragment ''balanceOfBatch'' [''address[]'', ''uint256[]'']]"
  by (simp add: validate_abi_def parseFragment_def)

lemma info_interface:
  "Interface_from info_abi =
     Inr [FunctionFragment ''name'' [], FunctionFragment ''symbol'' [],
          FunctionFragment ''totalSupply'' []]"
  by (simp add: info_abi_def parseFragment_def)

lemma mint_interface:
  "Interface_from [''function mint(uint256)''] = Inr [FunctionFragment ''mint'' [''uint256'']]"
  by (simp add: parseFragment_def)

lemma new_Contract_validate:
  "new_Contract lib a validate_abi provider = Inr c \<longleftrightarrow>
     constructorError lib a validate_abi provider = None \<and>
     c = \<lparr>target = a,
          interface = [FunctionFragment ''supportsInterface'' [''bytes4''],
                       FunctionFragment ''balanceOf'' [''address''],
                       FunctionFragment ''ownerOf'' [''uint256''],
                       FunctionFragment ''balanceOfBatch'' [''address[]'', ''uint256[]'']],
          runner = provider\<rparr>"
  by (auto simp add: new_Contract_def validate_interface split: option.splits)

lemma new_Contract_info:
  "new_Contract lib a info_abi provider =
     (case constructorError lib a info_abi provider of
        Some e \<Rightarrow> Inl e
      | None \<Rightarrow> Inr \<lparr>target = a,
                     interface = [FunctionFragment ''name'' [], FunctionFragment ''symbol'' [],
                                  FunctionFragment ''totalSupply'' []],
                     runner = provider\<rparr>)"
  by (simp add: new_Contract_def info_interface)

lemma new_Contract_mint:
  "new_Contract lib a [''function mint(uint256)''] provider =
     (case constructorError lib a [''function mint(uint256)''] provider of
        Some e \<Rightarrow> Inl e
      | None \<Rightarrow> Inr \<lparr>target = a, interface = [FunctionFragment ''mint'' [''uint256'']],
                     runner = provider\<rparr>)"
  unfolding new_Contract_def mint_interface by simp

text \<open>A bound contract object keeps the target and the provider it was given.\<close>

lemma new_Contract_fields:
  assumes "new_Contract lib a abi provider = Inr c"
  shows "target c = a \<and> runner c = provider"
  using assms by (auto simp add: new_Contract_def split: sum.splits option.splits)

lemma sample_address_ok:
  "sample_address \<noteq> [] \<and> isAddress sample_ethers sample_address \<and>
   isAddress unresolving_ethers sample_address"
  by (simp add: sample_address_def sample_ethers_def unresolving_ethers_def hex_address_def)

subsection \<open>The steps of validateNFTContract\<close>

lemma code_check_fulfilled:
  assumes "provider (trace w) (GetCode a) = Promise d (Fulfilled code)" and "d \<le> 10000"
  shows "validate_code_check provider a w =
           Some (Inr (if code = VStr ''0x''
                 then Return \<lparr>valid = False, reason = Some ''Contract not deployed at this address''\<rparr>
                 else FallThrough),
            w\<lparr>trace := trace w @ [GetCode a]\<rparr>)"
  using assms by (simp add: validate_code_check_def io_defs reject_after_def)


lemma validate_reaches_heuristics:
  assumes "contractAddress \<noteq> []" and "isAddress lib contractAddress"
    and "provider (trace w) (GetCode contractAddress) = Promise d (Fulfilled code)"
    and "d \<le> 10000" and "code \<noteq> VStr ''0x''"
    and "new_Contract lib contractAddress validate_abi provider = Inr c"
  shows "validateNFTContract lib provider contractAddress w =
           try_catch (validate_heuristics c provider contractAddress)
             (\<lambda>error. io_return \<lparr>valid = True, reason = None\<rparr>)
             (w\<lparr>trace := trace w @ [GetCode contractAddress]\<rparr>)"
  using assms(1,2,5,6) code_check_fulfilled [of provider w contractAddress d code, OF assms(3,4)]
  by (simp add: validateNFTContract_def try_catch_def io_bind_def io_return_def io_lift_def
      io_throw_def split: prod.splits sum.splits option.splits)


lemma heuristics_fallback:
  fixes c :: contract and provider :: provider and a :: string and w :: world
  defines "t2 \<equiv> trace w @ [probe721 (target c), probe1155 (target c)]"
  defines "t4 \<equiv> t2 @ [balanceOf_call (target c), ownerOf_call (target c)]"
  assumes "runner c (trace w) (probe721 (target c)) = Promise d1 r1"
    and "runner c (trace w @ [probe721 (target c)]) (probe1155 (target c)) = Promise d2 r2"
    and "\<not> answers_true r1" and "\<not> answers_true r2"
    and "runner c t2 (balanceOf_call (target c)) = Promise d3 r3"
    and "runner c (t2 @ [balanceOf_call (target c)]) (ownerOf_call (target c)) = Promise d4 r4"
  shows "validate_heuristics c provider a w =
     (if succeeded r3 \<or> succeeded r4
      then Some (Inr \<lparr>valid = True, reason = None\<rparr>, w\<lparr>trace := t4\<rparr>)
      else (case provider t4 (GetCode a) of
              Pending \<Rightarrow> None
            | Promise d (Rejected e) \<Rightarrow> Some (Inl e, w\<lparr>trace := t4 @ [GetCode a]\<rparr>)
            | Promise d (Fulfilled (VStr s)) \<Rightarrow>
                Some (Inr (if str_includes s ''Transfer('' \<or> str_includes s ''5RANSFERE''
                      then \<lparr>valid = True,
                            reason = Some ''Contract appears to implement transfer events''\<rparr>
                      else \<lparr>valid = False,
                            reason = Some ''Contract does not appear to be an ERC721 or ERC1155 NFT''\<rparr>),
                 w\<lparr>trace := t4 @ [GetCode a]\<rparr>)
            | Promise d (Fulfilled _) \<Rightarrow>
                Some (Inl (Error ''bytecode.includes is not a function''),
                      w\<lparr>trace := t4 @ [GetCode a]\<rparr>)))"
  using assms(3-8) unfolding validate_heuristics_def t2_def t4_def
  by (simp add: io_defs await_caught_probe await_fallback_call probe_truthy
      split: promise.splits settled.splits val.splits)



subsection \<open>The calls of getNFTContractInfo\<close>

lemma info_run:
  assumes "new_Contract lib a info_abi provider = Inr c"
    and "provider (trace w) (Call a ''name'' []) = Promise d1 r1"
    and "provider (trace w @ [Call a ''name'' []]) (Call a ''symbol'' []) = Promise d2 r2"
    and "provider (trace w @ [Call a ''name'' [], Call a ''symbol'' []])
           (Call a ''totalSupply'' []) = Promise d3 r3"
  shows "getNFTContractInfo lib provider a w =
           Some (Inr \<lparr>name = value_or_undefined r1,
                      symbol = value_or_undefined r2,
                      totalSupply = value_or_undefined r3\<rparr>,
                 w\<lparr>trace := trace w @
                      [Call a ''name'' [], Call a ''symbol'' [], Call a ''totalSupply'' []]\<rparr>)"
proof -
  have tc: "target c = a" and rc: "runner c = provider"
    using new_Contract_fields [OF assms(1)] by simp_all
  show ?thesis
    using assms(2-4)
    by (simp add: getNFTContractInfo_def assms(1) io_defs allSettled_def tc rc)
qed

lemma info_unbound:
  assumes "new_Contract lib a info_abi provider = Inl e"
  shows "getNFTContractInfo lib provider a w =
           Some (Inr \<lparr>name = None, symbol = None, totalSupply = None\<rparr>,
                 w\<lparr>console := console w @ [(''Error getting NFT contract info:'', e)]\<rparr>)"
  by (simp add: getNFTContractInfo_def assms io_defs)

subsection \<open>The loop of detectMintFunction\<close>

lemma first_candidate:
  "detect_candidate lib provider a ''function mint(uint256)'' w =
     (case constructorError lib a [''function mint(uint256)''] provider of
        Some e \<Rightarrow> Some (Inl e, w)
      | None \<Rightarrow> Some (Inr (Return ''function mint(uint256)''), w))"
proof (cases "constructorError lib a [''function mint(uint256)''] provider")
  case None
  then show ?thesis
    by (simp add: detect_candidate_def new_Contract_mint getFunction_def io_defs)
next
  case (Some e)
  then show ?thesis
    by (simp add: detect_candidate_def new_Contract_mint io_defs)
qed

lemma detect_first:
  "detectMintFunction lib provider a w =
     (case constructorError lib a [''function mint(uint256)''] provider of
        Some e \<Rightarrow>
          Some (Inr None, w\<lparr>console := console w @ [(''Error detecting mint function:'', e)]\<rparr>)
      | None \<Rightarrow> Some (Inr (Some ''function mint(uint256)''), w))"
proof -
  have "detect_loop lib provider a mintFunctions w =
          (case detect_candidate lib provider a ''function mint(uint256)'' w of
             None \<Rightarrow> None
           | Some (Inl e, w') \<Rightarrow> Some (Inl e, w')
           | Some (Inr (Return found), w') \<Rightarrow> Some (Inr (Some found), w')
           | Some (Inr FallThrough, w') \<Rightarrow> detect_loop lib provider a (tl mintFunctions) w')"
    by (simp add: mintFunctions_def io_bind_def io_return_def
        split: option.splits prod.splits sum.splits flow.splits)
  then show ?thesis
    unfolding detectMintFunction_def
    by (simp add: first_candidate try_catch_def io_bind_def io_return_def console_error_def
        split: option.splits)
qed

subsection \<open>Runs that come to an end\<close>






section \<open>Theorems about validateNFTContract\<close>

text \<open>
  C5. For every address string that fails the format validation of the chain, the empty
  string included, \<^verbatim>\<open>validateNFTContract\<close> returns \<^verbatim>\<open>{ valid: false }\<close> with the
  bad-format reason, and the world is left as it was: no request has been sent to the
  provider.
\<close>

theorem validateNFTContract_bad_format:
  assumes "contractAddress = [] \<or> \<not> isAddress lib contractAddress"
  shows "validateNFTContract lib provider contractAddress w =
           Some (Inr \<lparr>valid = False, reason = Some ''Invalid Ethereum address format''\<rparr>, w)"
  using assms by (auto simp add: validateNFTContract_def try_catch_def io_return_def)

text \<open>The empty string and a string that is too short, with a provider that would answer.\<close>

theorem validateNFTContract_bad_format_witness:
  "\<not> isAddress sample_ethers ''0x123'' \<and>
   validateNFTContract sample_ethers erc721_provider ''0x123'' fresh_world =
     Some (Inr \<lparr>valid = False, reason = Some ''Invalid Ethereum address format''\<rparr>, fresh_world) \<and>
   validateNFTContract sample_ethers erc721_provider [] fresh_world =
     Some (Inr \<lparr>valid = False, reason = Some ''Invalid Ethereum address format''\<rparr>, fresh_world)"
proof -
  have malformed: "\<not> isAddress sample_ethers ''0x123''"
    by (simp add: sample_ethers_def hex_address_def)
  then have "''0x123'' = [] \<or> \<not> isAddress sample_ethers ''0x123''" ..
  moreover have "([]::string) = [] \<or> \<not> isAddress sample_ethers []" by simp
  ultimately show ?thesis
    using malformed
      validateNFTContract_bad_format [of "''0x123''" sample_ethers erc721_provider fresh_world]
      validateNFTContract_bad_format [of "[]" sample_ethers erc721_provider fresh_world]
    by blast
qed

text \<open>
  C6. For every well-formed address whose bytecode query is answered in time with the
  empty bytecode \<^verbatim>\<open>0x\<close>, \<^verbatim>\<open>validateNFTContract\<close> returns \<^verbatim>\<open>{ valid: false }\<close> with the
  not-deployed reason, and the bytecode query is the only request it has sent: no interface
  probe and no fallback call.
\<close>

theorem validateNFTContract_not_deployed:
  assumes "contractAddress \<noteq> []" and "isAddress lib contractAddress"
    and "provider (trace w) (GetCode contractAddress) = Promise d (Fulfilled (VStr ''0x''))"
    and "d \<le> 10000"
  shows "validateNFTContract lib provider contractAddress w =
           Some (Inr \<lparr>valid = False, reason = Some ''Contract not deployed at this address''\<rparr>,
                 w\<lparr>trace := trace w @ [GetCode contractAddress]\<rparr>)"
  using assms(1,2)
    code_check_fulfilled [of provider w contractAddress d "VStr ''0x''", OF assms(3,4)]
  by (simp add: validateNFTContract_def try_catch_def io_bind_def io_return_def)

theorem validateNFTContract_not_deployed_witness:
  "bare_provider (trace fresh_world) (GetCode sample_address) = Promise 120 (Fulfilled (VStr ''0x'')) \<and>
   validateNFTContract sample_ethers bare_provider sample_address fresh_world =
     Some (Inr \<lparr>valid = False, reason = Some ''Contract not deployed at this address''\<rparr>,
           \<lparr>trace = [GetCode sample_address], console = []\<rparr>)"
proof -
  have answer: "bare_provider (trace fresh_world) (GetCode sample_address) =
                  Promise 120 (Fulfilled (VStr ''0x''))"
    by (simp add: bare_provider_def)
  have "(120::nat) \<le> 10000" by simp
  with answer sample_address_ok show ?thesis
    using validateNFTContract_not_deployed
      [of sample_address sample_ethers bare_provider fresh_world 120]
    by (simp add: fresh_world_def)
qed





text \<open>
  C4. Once \<^verbatim>\<open>validateNFTContract\<close> has reached the interface probes (well-formed address,
  bytecode fetched in time and not empty, contract object bound), any exception that the
  statements of steps 3 to 5 let escape is swallowed: the function returns
  \<^verbatim>\<open>{ valid: true }\<close> without a reason, not an error result.
\<close>

theorem validateNFTContract_permissive_default:
  assumes "a \<noteq> []" and "isAddress lib a"
    and "provider (trace w) (GetCode a) = Promise d (Fulfilled code)"
    and "d \<le> 10000" and "code \<noteq> VStr ''0x''"
    and "new_Contract lib a validate_abi provider = Inr c"
    and "validate_heuristics c provider a (w\<lparr>trace := trace w @ [GetCode a]\<rparr>) =
           Some (Inl e, w')"
  shows "validateNFTContract lib provider a w = Some (Inr \<lparr>valid = True, reason = None\<rparr>, w')"
  using assms(7)
  by (simp add: validate_reaches_heuristics [OF assms(1-6)] try_catch_def io_return_def)

text \<open>The connection is lost after the first bytecode query: the second one is rejected.\<close>

theorem validateNFTContract_permissive_default_witness:
  "(\<exists>c w'. new_Contract sample_ethers sample_address validate_abi flaky_provider = Inr c \<and>
      validate_heuristics c flaky_provider sample_address
        (fresh_world\<lparr>trace := trace fresh_world @ [GetCode sample_address]\<rparr>) =
        Some (Inl (Error ''network error''), w')) \<and>
   map_option fst (validateNFTContract sample_ethers flaky_provider sample_address fresh_world) =
     Some (Inr \<lparr>valid = True, reason = None\<rparr>)"
proof -
  let ?lost = "Rejected (Error ''network error'') :: val settled"
  have code: "flaky_provider (trace fresh_world) (GetCode sample_address) =
                Promise 120 (Fulfilled (VStr ''0x6080604052''))"
    by (simp add: flaky_provider_def fresh_world_def)
  obtain c where c: "new_Contract sample_ethers sample_address validate_abi flaky_provider = Inr c"
    and tc: "target c = sample_address" and rc: "runner c = flaky_provider"
    by (simp add: new_Contract_validate sample_ethers_def)
  obtain w' where thrown: "validate_heuristics c flaky_provider sample_address
        (fresh_world\<lparr>trace := trace fresh_world @ [GetCode sample_address]\<rparr>) =
        Some (Inl (Error ''network error''), w')"
    using heuristics_fallback
        [of c "fresh_world\<lparr>trace := trace fresh_world @ [GetCode sample_address]\<rparr>"
            300 ?lost 300 ?lost 300 ?lost 300 ?lost flaky_provider sample_address]
    by (simp add: tc rc flaky_provider_def fresh_world_def)
  have "validateNFTContract sample_ethers flaky_provider sample_address fresh_world =
          Some (Inr \<lparr>valid = True, reason = None\<rparr>, w')"
    using sample_address_ok
      validateNFTContract_permissive_default
        [of sample_address sample_ethers flaky_provider fresh_world 120 "VStr ''0x6080604052''" c
            "Error ''network error''" w', OF _ _ code _ _ c thrown]
    by simp
  with c thrown show ?thesis by auto
qed

section \<open>Theorems about getNFTContractInfo\<close>

text \<open>
  C9. When the contract object is bound, the three read calls \<^verbatim>\<open>name\<close>, \<^verbatim>\<open>symbol\<close> and
  \<^verbatim>\<open>totalSupply\<close> fail independently: whatever the three outcomes are, each field of the
  result is the decoded value of its own call when that call was fulfilled and absent when
  it was rejected, so that the failure of one call leaves the other two fields as they are
  and the result is never an error.
\<close>

theorem getNFTContractInfo_fields_independent:
  assumes "new_Contract lib a info_abi provider = Inr c"
    and "provider (trace w) (Call a ''name'' []) = Promise d1 r1"
    and "provider (trace w @ [Call a ''name'' []]) (Call a ''symbol'' []) = Promise d2 r2"
    and "provider (trace w @ [Call a ''name'' [], Call a ''symbol'' []])
           (Call a ''totalSupply'' []) = Promise d3 r3"
  shows "getNFTContractInfo lib provider a w =
           Some (Inr \<lparr>name = value_or_undefined r1,
                      symbol = value_or_undefined r2,
                      totalSupply = value_or_undefined r3\<rparr>,
                 w\<lparr>trace := trace w @
                      [Call a ''name'' [], Call a ''symbol'' [], Call a ''totalSupply'' []]\<rparr>)"
  using assms by (rule info_run)

text \<open>Exactly one call fails, \<^verbatim>\<open>symbol\<close>: the result is partial.\<close>

theorem getNFTContractInfo_fields_independent_witness:
  "(\<exists>c. new_Contract sample_ethers sample_address info_abi erc721_provider = Inr c) \<and>
   erc721_provider [Call sample_address ''name'' []] (Call sample_address ''symbol'' []) =
     Promise 80 (Rejected (Error ''call revert exception'')) \<and>
   map_option fst (getNFTContractInfo sample_ethers erc721_provider sample_address fresh_world) =
     Some (Inr \<lparr>name = Some (VStr ''Apes''), symbol = None, totalSupply = Some (VInt 10000)\<rparr>)"
proof -
  obtain c where c: "new_Contract sample_ethers sample_address info_abi erc721_provider = Inr c"
    by (simp add: new_Contract_info sample_ethers_def)
  have p1: "erc721_provider (trace fresh_world) (Call sample_address ''name'' []) =
              Promise 80 (Fulfilled (VStr ''Apes''))"
    by (simp add: erc721_provider_def)
  have p2: "erc721_provider (trace fresh_world @ [Call sample_address ''name'' []])
              (Call sample_address ''symbol'' []) =
              Promise 80 (Rejected (Error ''call revert exception''))"
    by (simp add: erc721_provider_def)
  have p3: "erc721_provider
              (trace fresh_world @ [Call sample_address ''name'' [], Call sample_address ''symbol'' []])
              (Call sample_address ''totalSupply'' []) = Promise 95 (Fulfilled (VInt 10000))"
    by (simp add: erc721_provider_def)
  show ?thesis
    using c p2 getNFTContractInfo_fields_independent [OF c p1 p2 p3]
    by (simp add: fresh_world_def)
qed

text \<open>
  C10. If the contract-binding step of \<^verbatim>\<open>getNFTContractInfo\<close> throws, the function returns
  the entirely empty result, all three fields absent: no partial data and no thrown error.
  No request is sent; the error goes to the console.
\<close>

theorem getNFTContractInfo_empty_when_binding_throws:
  assumes "new_Contract lib a info_abi provider = Inl e"
  shows "getNFTContractInfo lib provider a w =
           Some (Inr \<lparr>name = None, symbol = None, totalSupply = None\<rparr>,
                 w\<lparr>console := console w @ [(''Error getting NFT contract info:'', e)]\<rparr>)"
  using assms by (rule info_unbound)

text \<open>A name that the runner cannot resolve, with a provider that would answer every call.\<close>

theorem getNFTContractInfo_empty_when_binding_throws_witness:
  "new_Contract unresolving_ethers ''vitalik.eth'' info_abi erc721_provider =
     Inl (Error ''contract runner does not support name resolution'') \<and>
   getNFTContractInfo unresolving_ethers erc721_provider ''vitalik.eth'' fresh_world =
     Some (Inr \<lparr>name = None, symbol = None, totalSupply = None\<rparr>,
           \<lparr>trace = [],
            console = [(''Error getting NFT contract info:'',
                        Error ''contract runner does not support name resolution'')]\<rparr>)"
proof -
  have thrown: "new_Contract unresolving_ethers ''vitalik.eth'' info_abi erc721_provider =
                  Inl (Error ''contract runner does not support name resolution'')"
    by (simp add: new_Contract_info unresolving_ethers_def hex_address_def)
  show ?thesis
    using thrown getNFTContractInfo_empty_when_binding_throws [OF thrown, of fresh_world]
    by (simp add: fresh_world_def)
qed

section \<open>Theorems about detectMintFunction\<close>

text \<open>
  C3. For every contract address and every provider to which the library binds a contract
  object for the first candidate, \<^verbatim>\<open>detectMintFunction\<close> returns the string
  \<^verbatim>\<open>function mint(uint256)\<close>: the lookup is made in the interface built from that one
  candidate, it succeeds in the first round of the loop, and no request is sent to the
  chain, so the answer does not depend on what the contract exposes.
\<close>

theorem detectMintFunction_first_candidate:
  assumes "constructorError lib a [''function mint(uint256)''] provider = None"
  shows "detectMintFunction lib provider a w = Some (Inr (Some ''function mint(uint256)''), w)"
  using assms by (simp add: detect_first)

text \<open>No contract at the address, and a node that stops answering: the same answer.\<close>

theorem detectMintFunction_first_candidate_witness:
  "constructorError sample_ethers sample_address [''function mint(uint256)''] bare_provider = None \<and>
   detectMintFunction sample_ethers bare_provider sample_address fresh_world =
     Some (Inr (Some ''function mint(uint256)''), fresh_world) \<and>
   detectMintFunction sample_ethers stalled_provider ''vitalik.eth'' fresh_world =
     Some (Inr (Some ''function mint(uint256)''), fresh_world)"
proof -
  have bound: "constructorError sample_ethers sample_address [''function mint(uint256)'']
                 bare_provider = None"
    by (simp add: sample_ethers_def)
  have bound': "constructorError sample_ethers ''vitalik.eth'' [''function mint(uint256)'']
                 stalled_provider = None"
    by (simp add: sample_ethers_def)
  show ?thesis
    using bound detectMintFunction_first_candidate [OF bound, of fresh_world]
      detectMintFunction_first_candidate [OF bound', of fresh_world]
    by simp
qed

text \<open>
  C2. A contract that exposes none of the six candidate signatures (every call to it
  except \<^verbatim>\<open>balanceOf\<close> is rejected) is still reported as having \<^verbatim>\<open>function mint(uint256)\<close>:
  at this input the code returns the first candidate, where the claim expects \<^verbatim>\<open>null\<close>.
\<close>

theorem detectMintFunction_ignores_contract:
  "legacy_provider [] (Call sample_address ''mint'' [VInt 1]) =
     Promise 80 (Rejected (Error ''call revert exception'')) \<and>
   detectMintFunction sample_ethers legacy_provider sample_address fresh_world =
     Some (Inr (Some ''function mint(uint256)''), fresh_world)"
  by (simp add: detect_first sample_ethers_def legacy_provider_def)

section \<open>No exception escapes\<close>





end
